theory Spec2Isabelle
  imports Complex_Main "HOL-Library.Sublist"
begin

section \<open>Data model of \<open>src/services/api.ts\<close>\<close>

text \<open>
  The TypeScript interface \<open>PredictionResult\<close> and the literal types it uses.
  A JavaScript \<open>number\<close> is modelled as a \<open>real\<close>: every number the fallback
  classifier computes is a small integer, exact in a double; the backend may send any
  finite number. Optional fields are \<open>option\<close>s. The field \<open>analysis_type\<close> is not
  part of the interface but is written by \<open>predictFakeNews\<close> and \<open>handleAnalyze\<close>.
  The field \<open>id\<close> is named \<open>id_field\<close>, since \<open>id\<close> is the identity function of HOL.
\<close>

datatype label = Real | Fake | Inconclusive

datatype impact = Positive | Negative | Neutral

datatype analysis_type = TextAnalysis | UrlAnalysis | FileAnalysis

record factor =
  name :: string
  score :: real
  impact :: impact
  description :: string

record PredictionResult =
  id_field :: string
  prediction :: label
  confidence :: real
  explanation :: string
  factors :: "factor list"
  sources :: "string list"
  timestamp :: string
  inputText :: string
  inputUrl :: "string option"
  modelVersion :: string
  processingTime :: "real option"
  analysis_type :: "analysis_type option"

section \<open>Strings\<close>

text \<open>
  A text is a list of characters. \<open>String.prototype.toLowerCase\<close> is a built-in of the
  JavaScript engine, not code of this repository, and its Unicode case mapping can turn
  a character outside ASCII into an ASCII letter (the Kelvin sign U+212A becomes \<open>k\<close>).
  Every function below that calls it takes the lowering as its first parameter
  \<open>lower\<close>, so the theorems about every text hold whatever the engine's lowering does.

  \<open>toLowerCase\<close> is the lowering of ASCII text: the letters \<open>A\<close> to \<open>Z\<close> become \<open>a\<close>
  to \<open>z\<close> and every other character stays. On a text of ASCII characters it is what the
  engine computes, and it is the lowering passed where one concrete ASCII text is
  evaluated.
\<close>

definition toLowerChar :: "char \<Rightarrow> char" where
  "toLowerChar c =
     (let n = (of_char c :: nat)
      in if 65 \<le> n \<and> n \<le> 90 then char_of (n + 32) else c)"

definition toLowerCase :: "string \<Rightarrow> string" where
  "toLowerCase s = map toLowerChar s"

text \<open>
  \<open>s.includes(w)\<close>: \<open>w\<close> occurs in \<open>s\<close> as a contiguous substring. The name carries a
  suffix because \<open>includes\<close> is a keyword of Isabelle.
\<close>

fun includesStr :: "string \<Rightarrow> string \<Rightarrow> bool" where
  "includesStr [] w = (w = [])"
| "includesStr (c # cs) w = (prefix w (c # cs) \<or> includesStr cs w)"

text \<open>
  \<open>String(n)\<close> for a non-negative integer \<open>n\<close>, as used by string concatenation and
  template literals: its decimal digits, most significant first.
\<close>

definition digitChar :: "nat \<Rightarrow> char" where
  "digitChar d = char_of (48 + d)"

function numberToString :: "nat \<Rightarrow> string" where
  "numberToString n =
     (if n < 10 then [digitChar n]
      else numberToString (n div 10) @ [digitChar (n mod 10)])"
  by pat_completeness auto
termination
  by (relation "measure (\<lambda>n. n)") auto

declare numberToString.simps [simp del]

section \<open>The fallback classifier\<close>

definition fakeIndicators :: "string list" where
  "fakeIndicators =
     [''shocking'', ''unbelievable'', ''you won'' @ [CHR 0x27] @ ''t believe'',
      ''click here'', ''amazing'', ''secret'']"

definition realIndicators :: "string list" where
  "realIndicators = [''according to'', ''study'', ''research'', ''university'', ''published'']"

text \<open>\<open>lowerText\<close> is \<open>lower text\<close>, the result of \<open>text.toLowerCase()\<close>.\<close>

definition fakeCount :: "(string \<Rightarrow> string) \<Rightarrow> string \<Rightarrow> nat" where
  "fakeCount lower text =
     length (filter (\<lambda>word. includesStr (lower text) word) fakeIndicators)"

definition realCount :: "(string \<Rightarrow> string) \<Rightarrow> string \<Rightarrow> nat" where
  "realCount lower text =
     length (filter (\<lambda>word. includesStr (lower text) word) realIndicators)"

text \<open>
  The rule of lines 121 to 136: the pair of \<open>prediction\<close> and \<open>confidence\<close> after the
  two-armed conditional, starting from \<open>inconclusive\<close> and 60.
\<close>

definition fallbackRule :: "(string \<Rightarrow> string) \<Rightarrow> string \<Rightarrow> label \<times> real" where
  "fallbackRule lower text =
     (let fc = fakeCount lower text; rc = realCount lower text
      in if fc > rc \<and> fc > 0 then (Fake, min 85 (60 + real fc * 10))
         else if rc > fc \<and> rc > 0 then (Real, min 85 (60 + real rc * 10))
         else (Inconclusive, 60))"

text \<open>
  The two clock reads of a call are inputs of the model: \<open>Date.now()\<close> in milliseconds and
  \<open>new Date().toISOString()\<close>.
\<close>

record clock =
  nowMs :: nat
  nowIso :: string

definition createFallbackPrediction ::
    "(string \<Rightarrow> string) \<Rightarrow> clock \<Rightarrow> string \<Rightarrow> PredictionResult" where
  "createFallbackPrediction lower clk text =
     (let (prediction, confidence) = fallbackRule lower text
      in \<lparr> id_field = ''fallback-'' @ numberToString (nowMs clk),
           prediction = prediction,
           confidence = confidence,
           explanation = ''This analysis uses a simple fallback system. '' @
             (if prediction = Fake
              then ''The text contains language patterns often associated with misinformation.''
              else if prediction = Real
              then ''The text appears to follow standard journalistic patterns.''
              else ''The text shows mixed indicators and requires further verification.''),
           factors =
             [\<lparr> name = ''Pattern Analysis'',
                score = confidence,
                impact = (if prediction = Fake then Negative else Positive),
                description = ''Simple keyword-based analysis ('' @
                  numberToString (fakeCount lower text) @ '' fake indicators, '' @
                  numberToString (realCount lower text) @ '' real indicators)'' \<rparr>],
           sources = [''https://www.snopes.com'', ''https://www.factcheck.org''],
           timestamp = nowIso clk,
           inputText = text,
           inputUrl = None,
           modelVersion = ''fallback-v1.0'',
           processingTime = None,
           analysis_type = None \<rparr>)"

section \<open>The backend and \<open>predictFakeNews\<close>\<close>

text \<open>
  \<open>apiRequest\<close> either returns the parsed reply or throws: an \<open>APIError\<close> with the HTTP status
  and message, the time-out error after ten seconds, or the connection error. The outcome
  of the one request a call makes is an input of the model, one per endpoint shape: the
  URL request is typed as a whole \<open>PredictionResult\<close> (an absent or empty \<open>timestamp\<close> is
  the empty string, which is falsy), the text request as the reply below, whose fourth
  field \<open>features\<close> is never read and is left out. A reply is taken as typed; a reply
  without a \<open>prediction\<close> string would throw inside the \<open>try\<close> block and is one more way
  for the request to fail.
\<close>

datatype api_failure = APIError nat string | RequestTimedOut | ConnectionFailed

record text_response =
  respPrediction :: string
  respConfidence :: real
  respExplanation :: string

record backend =
  predictUrl :: "api_failure + PredictionResult"
  predictText :: "api_failure + text_response"

text \<open>A thrown JavaScript \<open>Error\<close> with its message.\<close>

datatype error = Error string

text \<open>\<open>if (url)\<close>: an optional string is truthy when it is present and not empty.\<close>

definition truthy :: "string option \<Rightarrow> bool" where
  "truthy u = (case u of None \<Rightarrow> False | Some s \<Rightarrow> s \<noteq> [])"

text \<open>The object built from a text reply, lines 191 to 202.\<close>

definition mapTextResponse ::
    "(string \<Rightarrow> string) \<Rightarrow> clock \<Rightarrow> string \<Rightarrow> analysis_type option \<Rightarrow> text_response
       \<Rightarrow> PredictionResult" where
  "mapTextResponse lower clk text analysisType response =
     \<lparr> id_field = numberToString (nowMs clk),
       prediction = (if lower (respPrediction response) = ''fake'' then Fake else Real),
       confidence = respConfidence response,
       explanation = respExplanation response,
       factors = [],
       sources = [],
       timestamp = nowIso clk,
       inputText = text,
       inputUrl = None,
       modelVersion = ''lightweight-v1.0'',
       processingTime = None,
       analysis_type = Some (case analysisType of Some a \<Rightarrow> a | None \<Rightarrow> TextAnalysis) \<rparr>"

definition predictFakeNews ::
    "(string \<Rightarrow> string) \<Rightarrow> clock \<Rightarrow> backend \<Rightarrow> string \<Rightarrow> string option
       \<Rightarrow> analysis_type option \<Rightarrow> error + PredictionResult" where
  "predictFakeNews lower clk be text url analysisType =
     (if truthy url then
        (case predictUrl be of
           Inr response \<Rightarrow>
             Inr (response\<lparr>timestamp :=
                    (if timestamp response \<noteq> [] then timestamp response else nowIso clk)\<rparr>)
         | Inl failure \<Rightarrow>
             Inl (Error (''URL analysis requires backend connection. '' @
                         ''Please check if the server is running.'')))
      else
        (case predictText be of
           Inr response \<Rightarrow> Inr (mapTextResponse lower clk text analysisType response)
         | Inl failure \<Rightarrow> Inr (createFallbackPrediction lower clk text)))"

section \<open>\<open>handleAnalyze\<close> and the stored history\<close>

text \<open>
  The \<open>localStorage\<close> item \<open>predictionHistory\<close> as \<open>handleAnalyze\<close> finds it: absent (read
  as \<open>[]\<close>), the JSON text of a list of results, or anything else. For anything else the
  storage step throws inside the \<open>try\<close> block: \<open>JSON.parse\<close> a \<open>SyntaxError\<close> on text that is
  not JSON, \<open>history.unshift\<close> a \<open>TypeError\<close> on a parsed value that is not an array;
  \<open>BadItem\<close> carries the message of that error.
\<close>

datatype stored_item = NoItem | ListItem "PredictionResult list" | BadItem string

definition readHistory :: "stored_item \<Rightarrow> error + PredictionResult list" where
  "readHistory item =
     (case item of
        NoItem \<Rightarrow> Inr []
      | ListItem history \<Rightarrow> Inr history
      | BadItem message \<Rightarrow> Inl (Error message))"

text \<open>
  The part of the application state that \<open>handleAnalyze\<close> touches: three React state
  variables and the stored item.
\<close>

record app_state =
  currentResult :: "PredictionResult option"
  isAnalyzing :: bool
  historyKey :: nat
  predictionHistory :: stored_item

definition analysisTypeOf :: "string option \<Rightarrow> bool \<Rightarrow> analysis_type" where
  "analysisTypeOf url isFileUpload =
     (if truthy url then UrlAnalysis else if isFileUpload then FileAnalysis else TextAnalysis)"

text \<open>\<open>history.unshift(r)\<close>, then \<open>history.pop()\<close> when more than 50 entries are held.\<close>

definition saveToHistory :: "PredictionResult list \<Rightarrow> PredictionResult \<Rightarrow> PredictionResult list" where
  "saveToHistory history r =
     (let history1 = r # history
      in if length history1 > 50 then butlast history1 else history1)"

text \<open>The result that the \<open>catch\<close> block shows.\<close>

definition errorResult :: "clock \<Rightarrow> string \<Rightarrow> string option \<Rightarrow> bool \<Rightarrow> error \<Rightarrow> PredictionResult" where
  "errorResult clk text url isFileUpload err =
     \<lparr> id_field = ''error-'' @ numberToString (nowMs clk),
       prediction = Inconclusive,
       confidence = 0,
       explanation = (case err of Error message \<Rightarrow> message),
       factors = [],
       sources = [],
       timestamp = nowIso clk,
       inputText = (if text \<noteq> [] then text else ''URL analysis failed''),
       inputUrl = url,
       modelVersion = ''unknown'',
       processingTime = None,
       analysis_type = Some (analysisTypeOf url isFileUpload) \<rparr>"

text \<open>
  The \<open>catch\<close> block followed by the \<open>finally\<close> block: the error result is shown, and
  neither the stored item nor the history key changes.
\<close>

definition catchBlock ::
    "clock \<Rightarrow> string \<Rightarrow> string option \<Rightarrow> bool \<Rightarrow> error \<Rightarrow> app_state \<Rightarrow> app_state" where
  "catchBlock clk text url isFileUpload err st =
     st\<lparr> currentResult := Some (errorResult clk text url isFileUpload err),
         isAnalyzing := False \<rparr>"

text \<open>
  \<open>handleAnalyze\<close>, lines 83 to 130, as the state after the \<open>finally\<close> block. Everything
  from the call of \<open>predictFakeNews\<close> to \<open>setHistoryKey\<close> runs inside one \<open>try\<close>, so an
  error of the storage step ends in the same \<open>catch\<close> as a failed analysis. Whether
  \<open>localStorage.setItem\<close> accepts the write is an input of the model: \<open>setItemFailure\<close> is
  \<open>None\<close> when it does and the message of the error it throws (the quota is exceeded)
  when it does not.
\<close>

definition handleAnalyze ::
    "(string \<Rightarrow> string) \<Rightarrow> clock \<Rightarrow> backend \<Rightarrow> string option \<Rightarrow> string \<Rightarrow> string option
       \<Rightarrow> bool \<Rightarrow> app_state \<Rightarrow> app_state" where
  "handleAnalyze lower clk be setItemFailure text url isFileUpload st =
     (let analysisType = analysisTypeOf url isFileUpload
      in case predictFakeNews lower clk be text url (Some analysisType) of
           Inl err \<Rightarrow> catchBlock clk text url isFileUpload err st
         | Inr result \<Rightarrow>
             (let enhancedResult = result\<lparr>analysis_type := Some analysisType\<rparr>
              in case readHistory (predictionHistory st) of
                   Inl err \<Rightarrow> catchBlock clk text url isFileUpload err st
                 | Inr history \<Rightarrow>
                     (case setItemFailure of
                        Some message \<Rightarrow> catchBlock clk text url isFileUpload (Error message) st
                      | None \<Rightarrow>
                          st\<lparr> currentResult := Some enhancedResult,
                              predictionHistory :=
                                ListItem (saveToHistory history enhancedResult),
                              historyKey := historyKey st + 1,
                              isAnalyzing := False \<rparr>)))"

section \<open>Observing outcomes and concrete inputs\<close>

text \<open>
  Two outcomes of \<open>predictFakeNews\<close> are compared after blanking the fields that a
  comparison leaves out: the \<open>timestamp\<close> alone, or the \<open>id\<close> and the \<open>timestamp\<close>.
  \<open>confidenceOf\<close> reads the confidence of an outcome, when it is a result.
\<close>

definition withoutTimestamp :: "error + PredictionResult \<Rightarrow> error + PredictionResult" where
  "withoutTimestamp outcome =
     (case outcome of Inl err \<Rightarrow> Inl err | Inr r \<Rightarrow> Inr (r\<lparr>timestamp := []\<rparr>))"

definition withoutIdAndTimestamp :: "error + PredictionResult \<Rightarrow> error + PredictionResult" where
  "withoutIdAndTimestamp outcome =
     (case outcome of
        Inl err \<Rightarrow> Inl err
      | Inr r \<Rightarrow> Inr (r\<lparr>id_field := [], timestamp := []\<rparr>))"

definition confidenceOf :: "error + PredictionResult \<Rightarrow> real option" where
  "confidenceOf outcome = (case outcome of Inl err \<Rightarrow> None | Inr r \<Rightarrow> Some (confidence r))"

text \<open>Two clock readings one millisecond apart.\<close>

definition clockA :: clock where
  "clockA = \<lparr> nowMs = 1700000000000, nowIso = ''2023-11-14T22:13:20.000Z'' \<rparr>"

definition clockB :: clock where
  "clockB = \<lparr> nowMs = 1700000000001, nowIso = ''2023-11-14T22:13:20.001Z'' \<rparr>"

text \<open>
  Three backends: one that cannot be reached, one that answers a text request as the
  sample reply of the backend's README does, and one that answers with a confidence of
  150.
\<close>

definition offline :: backend where
  "offline = \<lparr> predictUrl = Inl ConnectionFailed, predictText = Inl ConnectionFailed \<rparr>"

definition sampleReply :: text_response where
  "sampleReply =
     \<lparr> respPrediction = ''FAKE'', respConfidence = 87.5,
       respExplanation = ''This text appears to be fake news with 87.5% confidence.'' \<rparr>"

definition online :: backend where
  "online = \<lparr> predictUrl = Inl ConnectionFailed, predictText = Inr sampleReply \<rparr>"

definition overconfident :: backend where
  "overconfident =
     \<lparr> predictUrl = Inl ConnectionFailed,
       predictText = Inr (sampleReply\<lparr>respConfidence := 150\<rparr>) \<rparr>"

text \<open>The input of Scenario A; the apostrophe is character 0x27.\<close>

definition scenarioA :: string where
  "scenarioA = ''SHOCKING! You won'' @ [CHR 0x27] @
     ''t believe this amazing discovery! Click here!''"

text \<open>
  Two application states: one with no stored item yet, one whose stored history already
  holds 50 entries. \<open>quotaExceeded\<close> is the message of the error that \<open>setItem\<close> throws when
  the store is full.
\<close>

definition freshState :: app_state where
  "freshState =
     \<lparr> currentResult = None, isAnalyzing = False, historyKey = 0, predictionHistory = NoItem \<rparr>"

definition olderEntries :: "PredictionResult list" where
  "olderEntries = replicate 50 (createFallbackPrediction toLowerCase clockA ''older text'')"

definition fullState :: app_state where
  "fullState =
     \<lparr> currentResult = None, isAnalyzing = False, historyKey = 0,
       predictionHistory = ListItem olderEntries \<rparr>"

definition quotaExceeded :: string where
  "quotaExceeded = ''The quota has been exceeded.''"

section \<open>Basic facts\<close>

lemmas eval_defs = fallbackRule_def fakeCount_def realCount_def fakeIndicators_def
  realIndicators_def toLowerCase_def toLowerChar_def char_of_def bit_0

lemma fakeCount_le: "fakeCount lower text \<le> 6"
  unfolding fakeCount_def
  by (rule order_trans [OF length_filter_le]) (simp add: fakeIndicators_def)

lemma realCount_le: "realCount lower text \<le> 5"
  unfolding realCount_def
  by (rule order_trans [OF length_filter_le]) (simp add: realIndicators_def)

lemma prediction_fallback:
  "prediction (createFallbackPrediction lower clk text) = fst (fallbackRule lower text)"
  by (simp add: createFallbackPrediction_def split: prod.split)

lemma confidence_fallback:
  "confidence (createFallbackPrediction lower clk text) = snd (fallbackRule lower text)"
  by (simp add: createFallbackPrediction_def split: prod.split)

lemma id_fallback:
  "id_field (createFallbackPrediction lower clk text) =
     ''fallback-'' @ numberToString (nowMs clk)"
  by (simp add: createFallbackPrediction_def split: prod.split)

lemma inputText_fallback: "inputText (createFallbackPrediction lower clk text) = text"
  by (simp add: createFallbackPrediction_def split: prod.split)

text \<open>
  In both arms of the rule the second test (\<open>fakeCount > 0\<close>, \<open>realCount > 0\<close>) follows from
  the first, so the rule is a three-way comparison of the two counts.
\<close>

lemma fallbackRule_cases:
  "fallbackRule lower text =
     (if realCount lower text < fakeCount lower text
      then (Fake, min 85 (60 + real (fakeCount lower text) * 10))
      else if fakeCount lower text < realCount lower text
      then (Real, min 85 (60 + real (realCount lower text) * 10))
      else (Inconclusive, 60))"
  by (auto simp: fallbackRule_def Let_def)

lemma fallback_confidence_bounds:
  "60 \<le> snd (fallbackRule lower text) \<and> snd (fallbackRule lower text) \<le> 85"
  by (auto simp: fallbackRule_cases min_def)

text \<open>The four ways through \<open>predictFakeNews\<close>.\<close>

lemma predictFakeNews_text_reply:
  "\<not> truthy url \<Longrightarrow> predictText be = Inr response \<Longrightarrow>
   predictFakeNews lower clk be text url analysisType =
     Inr (mapTextResponse lower clk text analysisType response)"
  by (simp add: predictFakeNews_def)

lemma predictFakeNews_text_failure:
  "\<not> truthy url \<Longrightarrow> predictText be = Inl failure \<Longrightarrow>
   predictFakeNews lower clk be text url analysisType =
     Inr (createFallbackPrediction lower clk text)"
  by (simp add: predictFakeNews_def)

lemma predictFakeNews_url_reply:
  "truthy url \<Longrightarrow> predictUrl be = Inr response \<Longrightarrow>
   predictFakeNews lower clk be text url analysisType =
     Inr (response\<lparr>timestamp :=
            (if timestamp response = [] then nowIso clk else timestamp response)\<rparr>)"
  by (simp add: predictFakeNews_def)

lemma predictFakeNews_url_failure:
  "truthy url \<Longrightarrow> predictUrl be = Inl failure \<Longrightarrow>
   predictFakeNews lower clk be text url analysisType =
     Inl (Error ''URL analysis requires backend connection. Please check if the server is running.'')"
  by (simp add: predictFakeNews_def)

lemma predictFakeNews_offline:
  "predictFakeNews lower clk offline text None analysisType =
     Inr (createFallbackPrediction lower clk text)"
  by (simp add: predictFakeNews_def truthy_def offline_def)

lemma numberToString_clockA: "numberToString (nowMs clockA) = ''1700000000000''"
  by (simp add: clockA_def numberToString.simps digitChar_def char_of_def bit_0)

lemma numberToString_clockB: "numberToString (nowMs clockB) = ''1700000000001''"
  by (simp add: clockB_def numberToString.simps digitChar_def char_of_def bit_0)

text \<open>The stored list after a save, by the number of entries held before.\<close>

lemma saveToHistory_first: "saveToHistory history r ! 0 = r"
  by (cases history) (simp_all add: saveToHistory_def Let_def)

lemma saveToHistory_keep:
  "length history < 50 \<Longrightarrow> saveToHistory history r = r # history"
  by (simp add: saveToHistory_def Let_def)

lemma saveToHistory_drop:
  "50 \<le> length history \<Longrightarrow> saveToHistory history r = r # butlast history"
  by (cases history) (simp_all add: saveToHistory_def Let_def)

lemma saveToHistory_length:
  "length history \<le> 50 \<Longrightarrow> length (saveToHistory history r) \<le> 50"
  by (simp add: saveToHistory_def Let_def)

text \<open>A failed analysis leaves the stored item as it was and shows the error.\<close>

lemma handleAnalyze_failure_keeps_history:
  "predictFakeNews lower clk be text url (Some (analysisTypeOf url isFileUpload)) = Inl err \<Longrightarrow>
   handleAnalyze lower clk be setItemFailure text url isFileUpload st =
     catchBlock clk text url isFileUpload err st"
  by (simp add: handleAnalyze_def Let_def)

lemma catchBlock_keeps_history:
  "predictionHistory (catchBlock clk text url isFileUpload err st) = predictionHistory st"
  by (simp add: catchBlock_def)

section \<open>The claims\<close>

subsection \<open>C1: when the label is inconclusive\<close>

text \<open>
  C1, as amended. The claim reads: the label is \<open>inconclusive\<close> if and only if the
  confidence lies strictly between 40 and 60. The code has no such thresholds. On the
  fallback path the label is \<open>inconclusive\<close> if and only if the confidence is exactly 60,
  the starting value that neither arm of the rule overwrites.
\<close>

theorem fallback_inconclusive_iff_confidence_60:
  "prediction (createFallbackPrediction lower clk text) = Inconclusive \<longleftrightarrow>
   confidence (createFallbackPrediction lower clk text) = 60"
  by (auto simp: prediction_fallback confidence_fallback fallbackRule_cases min_def)

text \<open>
  C1 fails as stated: the text \<open>hello\<close> holds no indicator, the fallback result is
  \<open>inconclusive\<close>, and its confidence 60 is not strictly between 40 and 60.
\<close>

theorem inconclusive_outside_open_interval:
  "prediction (createFallbackPrediction toLowerCase clockA ''hello'') = Inconclusive \<and>
   \<not> (40 < confidence (createFallbackPrediction toLowerCase clockA ''hello'') \<and>
        confidence (createFallbackPrediction toLowerCase clockA ''hello'') < 60)"
  by (simp add: prediction_fallback confidence_fallback eval_defs)

subsection \<open>C2: the range of the confidence\<close>

text \<open>
  C2, as amended. The claim reads: the confidence of the result returned by the engine
  lies between 0 and 100. That holds of \<open>createFallbackPrediction\<close> for every text. For a
  text analysed without a URL, \<open>predictFakeNews\<close> returns that confidence when the request
  fails, and the confidence of the backend's reply, unchanged and without a clamp, when
  the backend answers; so the range of the result is then the range of the reply.
\<close>

theorem engine_confidence_range:
  "0 \<le> confidence (createFallbackPrediction lower clk text) \<and>
   confidence (createFallbackPrediction lower clk text) \<le> 100 \<and>
   (\<not> truthy url \<longrightarrow>
      confidenceOf (predictFakeNews lower clk be text url analysisType) =
        Some (case predictText be of
                Inl failure \<Rightarrow> confidence (createFallbackPrediction lower clk text)
              | Inr response \<Rightarrow> respConfidence response))"
proof -
  have "60 \<le> confidence (createFallbackPrediction lower clk text)"
    and "confidence (createFallbackPrediction lower clk text) \<le> 85"
    using fallback_confidence_bounds [of lower "text"] by (simp_all add: confidence_fallback)
  moreover have "\<not> truthy url \<longrightarrow>
      confidenceOf (predictFakeNews lower clk be text url analysisType) =
        Some (case predictText be of
                Inl failure \<Rightarrow> confidence (createFallbackPrediction lower clk text)
              | Inr response \<Rightarrow> respConfidence response)"
    by (simp add: confidenceOf_def predictFakeNews_def mapTextResponse_def split: sum.split)
  ultimately show ?thesis by simp
qed

theorem engine_confidence_range_witness:
  "\<not> truthy None \<and>
   confidenceOf (predictFakeNews toLowerCase clockA offline ''hello'' None (Some TextAnalysis)) =
     Some 60 \<and>
   confidenceOf (predictFakeNews toLowerCase clockA online ''hello'' None (Some TextAnalysis)) =
     Some 87.5"
proof -
  have no_url: "\<not> truthy None"
    by (simp add: truthy_def)
  have c60: "confidence (createFallbackPrediction toLowerCase clockA ''hello'') = 60"
    by (simp add: confidence_fallback eval_defs)
  from engine_confidence_range [where lower = toLowerCase and clk = clockA
      and ?text = "''hello''" and url = None and be = offline
      and analysisType = "Some TextAnalysis"]
    engine_confidence_range [where lower = toLowerCase and clk = clockA
      and ?text = "''hello''" and url = None and be = online
      and analysisType = "Some TextAnalysis"]
    no_url c60
  show ?thesis
    by (simp add: offline_def online_def sampleReply_def)
qed

text \<open>
  C2 fails as stated: when the backend answers the text \<open>hello\<close> with a confidence of 150,
  \<open>predictFakeNews\<close> returns a result with confidence 150, above 100.
\<close>

theorem backend_confidence_150_returned:
  "confidenceOf (predictFakeNews toLowerCase clockA overconfident ''hello'' None
     (Some TextAnalysis)) = Some 150 \<and> (100 :: real) < 150"
  by (simp add: confidenceOf_def predictFakeNews_def truthy_def overconfident_def
      mapTextResponse_def)

subsection \<open>C3: how the label is selected\<close>

text \<open>
  C3, as amended. The claim reads: confidence at least 60 gives \<open>real\<close>, at most 40 gives
  \<open>fake\<close>, anything between gives \<open>inconclusive\<close>. In the code the label comes from the
  two indicator counts, not from the confidence: \<open>fake\<close> when more fake than real
  indicators occur, \<open>real\<close> when more real than fake, \<open>inconclusive\<close> otherwise. The
  confidence is the confidence in the returned label and is at least 60 for every text,
  so it never reaches 40 or less.
\<close>

theorem fallback_label_by_counts:
  "prediction (createFallbackPrediction lower clk text) =
     (if fakeCount lower text > realCount lower text then Fake
      else if realCount lower text > fakeCount lower text then Real
      else Inconclusive) \<and>
   60 \<le> confidence (createFallbackPrediction lower clk text)"
  by (auto simp: prediction_fallback confidence_fallback fallbackRule_cases min_def)

text \<open>
  C3 fails as stated: for the text \<open>shocking news\<close> the confidence is 70, which is at
  least 60, and the label is \<open>fake\<close>, not \<open>real\<close>.
\<close>

theorem confidence_70_labelled_fake:
  "confidence (createFallbackPrediction toLowerCase clockA ''shocking news'') = 70 \<and>
   prediction (createFallbackPrediction toLowerCase clockA ''shocking news'') = Fake"
  by (simp add: prediction_fallback confidence_fallback eval_defs)

subsection \<open>C4: the fallback when the request fails\<close>

text \<open>
  C4. For every text input (no URL is given, or an empty one), when the request to the
  backend fails, \<open>predictFakeNews\<close> does not fail: it returns the result of
  \<open>createFallbackPrediction\<close>, whose model version is \<open>fallback-v1.0\<close>.
\<close>

theorem text_analysis_falls_back:
  assumes "predictText be = Inl failure" and "\<not> truthy url"
  shows "predictFakeNews lower clk be text url analysisType =
           Inr (createFallbackPrediction lower clk text) \<and>
         modelVersion (createFallbackPrediction lower clk text) = ''fallback-v1.0''"
  using assms
  by (simp add: predictFakeNews_def createFallbackPrediction_def split: prod.split)

theorem text_analysis_falls_back_witness:
  "predictText offline = Inl ConnectionFailed \<and> \<not> truthy None \<and>
   predictFakeNews toLowerCase clockA offline ''hello'' None (Some TextAnalysis) =
     Inr (createFallbackPrediction toLowerCase clockA ''hello'') \<and>
   modelVersion (createFallbackPrediction toLowerCase clockA ''hello'') = ''fallback-v1.0''"
  using text_analysis_falls_back
    [where be = offline and failure = ConnectionFailed and url = None and lower = toLowerCase
       and clk = clockA and ?text = "''hello''" and analysisType = "Some TextAnalysis"]
  by (simp add: offline_def truthy_def)

subsection \<open>C5: what the fallback classifier computes\<close>

text \<open>
  C5, as amended. The claim reads: a weighted sum over features, a label from a fixed
  midpoint, and a confidence from the distance to the midpoint, clamped to the interval
  from 0 to 1. The code works on two keyword counts: \<open>f\<close>, how many of the six fake phrases
  occur in the lowered text, and \<open>r\<close>, how many of the five real phrases. The label is the
  sign of \<open>r - f\<close> (negative \<open>fake\<close>, positive \<open>real\<close>, zero \<open>inconclusive\<close>). The confidence is
  a percentage taken from the larger count, not from the distance: 60 when the counts
  are equal, otherwise 60 plus ten times the larger count, capped at 85.
\<close>

theorem fallback_rule_characterised:
  "prediction (createFallbackPrediction lower clk text) =
     (let s = int (realCount lower text) - int (fakeCount lower text)
      in if s < 0 then Fake else if 0 < s then Real else Inconclusive) \<and>
   confidence (createFallbackPrediction lower clk text) =
     (if fakeCount lower text = realCount lower text then 60
      else min 85 (60 + 10 * real (max (fakeCount lower text) (realCount lower text)))) \<and>
   fakeCount lower text \<le> 6 \<and> realCount lower text \<le> 5"
  by (auto simp: prediction_fallback confidence_fallback fallbackRule_cases Let_def max_def
      fakeCount_le realCount_le)

text \<open>
  C5 fails as stated: the confidence of the text \<open>hello\<close> is 60, outside the interval from
  0 to 1; and two texts at the same distance from the midpoint (one fake phrase against
  none, two fake phrases against one real phrase) get different confidences.
\<close>

theorem fallback_confidence_not_unit_interval:
  "1 < confidence (createFallbackPrediction toLowerCase clockA ''hello'') \<and>
   int (realCount toLowerCase ''shocking'') - int (fakeCount toLowerCase ''shocking'') =
     int (realCount toLowerCase ''shocking secret study'') -
     int (fakeCount toLowerCase ''shocking secret study'') \<and>
   confidence (createFallbackPrediction toLowerCase clockA ''shocking'') \<noteq>
     confidence (createFallbackPrediction toLowerCase clockA ''shocking secret study'')"
  by (simp add: confidence_fallback eval_defs)

subsection \<open>C6: determinism\<close>

text \<open>
  C6, as amended. The claim reads: two calls with identical text and configuration give
  identical results, the \<open>timestamp\<close> excluded. The \<open>id\<close> is built from \<open>Date.now()\<close> too.
  Two calls of \<open>predictFakeNews\<close> with the same text, URL and analysis type, answered
  alike by the backend, made at any two clock readings, give the same outcome in every
  field other than \<open>id\<close> and \<open>timestamp\<close> (and the same error when they fail).
\<close>

theorem predictFakeNews_deterministic_up_to_id_timestamp:
  "withoutIdAndTimestamp (predictFakeNews lower clk1 be text url analysisType) =
   withoutIdAndTimestamp (predictFakeNews lower clk2 be text url analysisType)"
  by (simp add: withoutIdAndTimestamp_def predictFakeNews_def mapTextResponse_def
      createFallbackPrediction_def split: sum.split prod.split)

text \<open>
  C6 fails as stated: two fallback analyses of the text \<open>hello\<close>, one millisecond apart,
  differ outside the \<open>timestamp\<close>: their ids are \<open>fallback-1700000000000\<close> and
  \<open>fallback-1700000000001\<close>.
\<close>

theorem fallback_id_depends_on_clock:
  "withoutTimestamp (predictFakeNews toLowerCase clockA offline ''hello'' None None) \<noteq>
   withoutTimestamp (predictFakeNews toLowerCase clockB offline ''hello'' None None)"
proof
  assume "withoutTimestamp (predictFakeNews toLowerCase clockA offline ''hello'' None None) =
          withoutTimestamp (predictFakeNews toLowerCase clockB offline ''hello'' None None)"
  then have "(createFallbackPrediction toLowerCase clockA ''hello'')\<lparr>timestamp := []\<rparr> =
             (createFallbackPrediction toLowerCase clockB ''hello'')\<lparr>timestamp := []\<rparr>"
    by (simp add: withoutTimestamp_def predictFakeNews_offline)
  then have
    "id_field ((createFallbackPrediction toLowerCase clockA ''hello'')\<lparr>timestamp := []\<rparr>) =
     id_field ((createFallbackPrediction toLowerCase clockB ''hello'')\<lparr>timestamp := []\<rparr>)"
    by (rule arg_cong)
  then show False
    by (simp add: id_fallback numberToString_clockA numberToString_clockB)
qed

subsection \<open>C7: Scenario A\<close>

text \<open>
  C7, as amended. The claim reads: for the input of Scenario A the prediction is \<open>fake\<close>
  with confidence at most 40. The fallback classifier finds four fake phrases in it
  (\<open>shocking\<close>, \<open>you won't believe\<close>, \<open>click here\<close>, \<open>amazing\<close>) and no real phrase, and returns
  the prediction \<open>fake\<close> with confidence 85, the cap of \<open>60 + 4 * 10\<close>.
\<close>

theorem scenarioA_fake_85:
  "fakeCount toLowerCase scenarioA = 4 \<and> realCount toLowerCase scenarioA = 0 \<and>
   prediction (createFallbackPrediction toLowerCase clk scenarioA) = Fake \<and>
   confidence (createFallbackPrediction toLowerCase clk scenarioA) = 85"
  by (simp add: prediction_fallback confidence_fallback eval_defs scenarioA_def)

text \<open>
  C7 fails as stated: the prediction is \<open>fake\<close>, but the confidence is not at most 40.
\<close>

theorem scenarioA_confidence_above_40:
  "\<not> (prediction (createFallbackPrediction toLowerCase clockA scenarioA) = Fake \<and>
       confidence (createFallbackPrediction toLowerCase clockA scenarioA) \<le> 40)"
  by (simp add: prediction_fallback confidence_fallback eval_defs scenarioA_def)

subsection \<open>C8: short inputs\<close>

text \<open>
  C8, as amended. The claim reads: an input that is empty or shorter than 10 characters
  fails with a validation error. \<open>predictFakeNews\<close> checks no length: for every text
  shorter than 10 characters (the empty one too) and no URL, it returns a result for
  that text: the result it builds from the backend's reply when the request succeeds,
  the result of \<open>createFallbackPrediction\<close> when the request fails.
\<close>

theorem short_text_still_analysed:
  assumes "length text < 10" and "\<not> truthy url"
  shows "\<exists>r. predictFakeNews lower clk be text url analysisType = Inr r \<and>
           inputText r = text \<and>
           r = (case predictText be of
                  Inl failure \<Rightarrow> createFallbackPrediction lower clk text
                | Inr response \<Rightarrow> mapTextResponse lower clk text analysisType response)"
proof (cases "predictText be")
  case (Inl failure)
  with assms(2) show ?thesis
    by (simp add: predictFakeNews_text_failure inputText_fallback)
next
  case (Inr response)
  with assms(2) show ?thesis
    by (simp add: predictFakeNews_text_reply mapTextResponse_def)
qed

theorem short_text_still_analysed_witness:
  "length ([] :: string) < 10 \<and> length ''Too short'' < 10 \<and> \<not> truthy None \<and>
   (\<exists>r. predictFakeNews toLowerCase clockA offline [] None (Some TextAnalysis) = Inr r \<and>
        inputText r = [] \<and> r = createFallbackPrediction toLowerCase clockA []) \<and>
   (\<exists>r. predictFakeNews toLowerCase clockA online ''Too short'' None (Some TextAnalysis) = Inr r \<and>
        inputText r = ''Too short'' \<and>
        r = mapTextResponse toLowerCase clockA ''Too short'' (Some TextAnalysis) sampleReply)"
proof -
  have no_url: "\<not> truthy None"
    by (simp add: truthy_def)
  have len0: "length ([] :: string) < 10" and len9: "length ''Too short'' < 10"
    by simp_all
  from short_text_still_analysed [OF len0 no_url, where lower = toLowerCase and clk = clockA
      and be = offline and analysisType = "Some TextAnalysis"]
    short_text_still_analysed [OF len9 no_url, where lower = toLowerCase and clk = clockA
      and be = online and analysisType = "Some TextAnalysis"]
    no_url
  show ?thesis
    by (simp add: offline_def online_def)
qed

text \<open>
  C8 fails as stated: the nine-character text \<open>Too short\<close> is analysed, here by the
  fallback classifier, and a result is returned.
\<close>

theorem short_text_not_rejected:
  "length ''Too short'' < 10 \<and>
   predictFakeNews toLowerCase clockA offline ''Too short'' None (Some TextAnalysis) =
     Inr (createFallbackPrediction toLowerCase clockA ''Too short'')"
  by (simp add: predictFakeNews_def truthy_def offline_def)

subsection \<open>C9: the fallback confidence\<close>

text \<open>
  C9. For every input text, the confidence returned by \<open>createFallbackPrediction\<close> lies
  between 60 and 85, and it is exactly 60 whenever the prediction is \<open>inconclusive\<close>.
\<close>

theorem fallback_confidence_60_to_85:
  "60 \<le> confidence (createFallbackPrediction lower clk text) \<and>
   confidence (createFallbackPrediction lower clk text) \<le> 85 \<and>
   (prediction (createFallbackPrediction lower clk text) = Inconclusive \<longrightarrow>
      confidence (createFallbackPrediction lower clk text) = 60)"
  by (auto simp: prediction_fallback confidence_fallback fallbackRule_cases min_def)

theorem fallback_confidence_60_to_85_witness:
  "prediction (createFallbackPrediction toLowerCase clockA ''hello'') = Inconclusive \<and>
   confidence (createFallbackPrediction toLowerCase clockA ''hello'') = 60"
  using fallback_confidence_60_to_85 [of toLowerCase clockA "''hello''"]
  by (simp add: prediction_fallback eval_defs)

subsection \<open>C10: the stored history\<close>

text \<open>
  C10, as amended. The claim reads: after every successful analysis the new result is
  prepended at index 0 of the stored history, which never grows beyond 50 entries.
  The storage step runs inside the same \<open>try\<close> block as the analysis and can throw. After
  an analysis that returns a result: when the stored item can be read (it is absent or a
  list) and the write is accepted, the stored history becomes the new result (with its
  analysis type set) followed by the old entries, all of them when fewer than 50 were
  held and all but the last when 50 or more were held, so the new result is at index 0
  and a history of at most 50 entries stays at most 50; when reading the item or writing
  it throws, the stored item is left as it was.
\<close>

theorem handleAnalyze_history_capped:
  assumes "predictFakeNews lower clk be text url (Some (analysisTypeOf url isFileUpload)) =
             Inr result"
  shows
    "(readHistory (predictionHistory st) = Inr old \<and> setItemFailure = None \<longrightarrow>
        (\<exists>h. predictionHistory
                (handleAnalyze lower clk be setItemFailure text url isFileUpload st) =
                ListItem h \<and>
              h ! 0 = result\<lparr>analysis_type := Some (analysisTypeOf url isFileUpload)\<rparr> \<and>
              (length old < 50 \<longrightarrow>
                 h = result\<lparr>analysis_type := Some (analysisTypeOf url isFileUpload)\<rparr> # old) \<and>
              (50 \<le> length old \<longrightarrow>
                 h = result\<lparr>analysis_type := Some (analysisTypeOf url isFileUpload)\<rparr> #
                       butlast old) \<and>
              (length old \<le> 50 \<longrightarrow> length h \<le> 50))) \<and>
     (readHistory (predictionHistory st) = Inl err \<or> setItemFailure = Some message \<longrightarrow>
        predictionHistory (handleAnalyze lower clk be setItemFailure text url isFileUpload st) =
          predictionHistory st)"
proof (intro conjI impI)
  assume "readHistory (predictionHistory st) = Inr old \<and> setItemFailure = None"
  with assms show "\<exists>h. predictionHistory
        (handleAnalyze lower clk be setItemFailure text url isFileUpload st) = ListItem h \<and>
      h ! 0 = result\<lparr>analysis_type := Some (analysisTypeOf url isFileUpload)\<rparr> \<and>
      (length old < 50 \<longrightarrow>
         h = result\<lparr>analysis_type := Some (analysisTypeOf url isFileUpload)\<rparr> # old) \<and>
      (50 \<le> length old \<longrightarrow>
         h = result\<lparr>analysis_type := Some (analysisTypeOf url isFileUpload)\<rparr> # butlast old) \<and>
      (length old \<le> 50 \<longrightarrow> length h \<le> 50)"
    by (simp add: handleAnalyze_def Let_def saveToHistory_first saveToHistory_keep
        saveToHistory_drop saveToHistory_length)
next
  assume "readHistory (predictionHistory st) = Inl err \<or> setItemFailure = Some message"
  with assms show
    "predictionHistory (handleAnalyze lower clk be setItemFailure text url isFileUpload st) =
       predictionHistory st"
    by (auto simp: handleAnalyze_def Let_def catchBlock_keeps_history split: sum.split)
qed

theorem handleAnalyze_history_capped_witness:
  "predictFakeNews toLowerCase clockB offline ''hello'' None (Some (analysisTypeOf None False)) =
     Inr (createFallbackPrediction toLowerCase clockB ''hello'') \<and>
   readHistory (predictionHistory fullState) = Inr olderEntries \<and>
   length olderEntries = 50 \<and>
   readHistory (predictionHistory freshState) = Inr [] \<and>
   predictionHistory
     (handleAnalyze toLowerCase clockB offline None ''hello'' None False fullState) =
     ListItem ((createFallbackPrediction toLowerCase clockB ''hello'')
                 \<lparr>analysis_type := Some TextAnalysis\<rparr> # butlast olderEntries) \<and>
   predictionHistory
     (handleAnalyze toLowerCase clockB offline None ''hello'' None False freshState) =
     ListItem [(createFallbackPrediction toLowerCase clockB ''hello'')
                 \<lparr>analysis_type := Some TextAnalysis\<rparr>] \<and>
   predictionHistory
     (handleAnalyze toLowerCase clockB offline (Some quotaExceeded) ''hello'' None False
        freshState) = NoItem"
proof -
  have run: "predictFakeNews toLowerCase clockB offline ''hello'' None
      (Some (analysisTypeOf None False)) = Inr (createFallbackPrediction toLowerCase clockB ''hello'')"
    by (simp add: predictFakeNews_offline)
  have ty: "analysisTypeOf None False = TextAnalysis"
    by (simp add: analysisTypeOf_def truthy_def)
  have full: "readHistory (predictionHistory fullState) = Inr olderEntries"
    by (simp add: readHistory_def fullState_def)
  have len: "length olderEntries = 50"
    by (simp add: olderEntries_def)
  have fresh: "readHistory (predictionHistory freshState) = Inr []"
    and fresh_item: "predictionHistory freshState = NoItem"
    by (simp_all add: readHistory_def freshState_def)
  from handleAnalyze_history_capped [OF run, where st = fullState and old = olderEntries
      and setItemFailure = None and err = "Error []" and message = "[]"]
    full len ty
  have stored_full: "predictionHistory
      (handleAnalyze toLowerCase clockB offline None ''hello'' None False fullState) =
      ListItem ((createFallbackPrediction toLowerCase clockB ''hello'')
                  \<lparr>analysis_type := Some TextAnalysis\<rparr> # butlast olderEntries)"
    by auto
  from handleAnalyze_history_capped [OF run, where st = freshState and old = "[]"
      and setItemFailure = None and err = "Error []" and message = "[]"]
    fresh ty
  have stored_fresh: "predictionHistory
      (handleAnalyze toLowerCase clockB offline None ''hello'' None False freshState) =
      ListItem [(createFallbackPrediction toLowerCase clockB ''hello'')
                  \<lparr>analysis_type := Some TextAnalysis\<rparr>]"
    by auto
  from handleAnalyze_history_capped [OF run, where st = freshState and old = "[]"
      and setItemFailure = "Some quotaExceeded" and err = "Error []"
      and message = quotaExceeded]
    fresh_item
  have refused: "predictionHistory
      (handleAnalyze toLowerCase clockB offline (Some quotaExceeded) ''hello'' None False
         freshState) = NoItem"
    by simp
  from run full len fresh stored_full stored_fresh refused show ?thesis
    by simp
qed

text \<open>
  C10 fails as stated: the analysis of the text \<open>hello\<close> returns a result, the store
  refuses the write, and afterwards there is still no stored history, so the new result
  is at no index of it; the result shown is the error result of the \<open>catch\<close> block.
\<close>

theorem analysis_result_not_stored:
  "predictFakeNews toLowerCase clockB offline ''hello'' None (Some TextAnalysis) =
     Inr (createFallbackPrediction toLowerCase clockB ''hello'') \<and>
   predictionHistory
     (handleAnalyze toLowerCase clockB offline (Some quotaExceeded) ''hello'' None False
        freshState) = NoItem \<and>
   currentResult
     (handleAnalyze toLowerCase clockB offline (Some quotaExceeded) ''hello'' None False
        freshState) =
     Some (errorResult clockB ''hello'' None False (Error quotaExceeded))"
  by (simp add: predictFakeNews_offline handleAnalyze_def Let_def analysisTypeOf_def truthy_def
      readHistory_def freshState_def catchBlock_def)

end
